theory Spec2Isabelle
  imports Main "HOL-Library.AList"
begin

section \<open>Values exchanged with the Zoho Books service\<close>

text \<open>
  The client (starter.py, class ZohoClient) handles untyped JSON: whatever
  \<^verbatim>\<open>response.json()\<close> and \<^verbatim>\<open>json.load\<close> return. A JSON document is
  modelled as the Python value the parser builds; \<open>JNull\<close> is Python's None and a
  \<open>JObj\<close> is a dict, looked up by its first binding of a key. JSON numbers are
  integers here (floating-point numbers are not modelled).
\<close>

datatype json =
    JNull
  | JBool bool
  | JNum int
  | JStr string
  | JArr "json list"
  | JObj "(string \<times> json) list"

text \<open>Python's truth test, used by \<^verbatim>\<open>if not self.refresh_token\<close>, \<^verbatim>\<open>if item\<close>, ...\<close>

fun truthy :: "json \<Rightarrow> bool" where
  "truthy JNull = False"
| "truthy (JBool b) = b"
| "truthy (JNum n) = (n \<noteq> 0)"
| "truthy (JStr s) = (s \<noteq> [])"
| "truthy (JArr xs) = (xs \<noteq> [])"
| "truthy (JObj kvs) = (kvs \<noteq> [])"

text \<open>\<^verbatim>\<open>d.get(k, default)\<close> on a dict.\<close>

definition dict_get :: "(string \<times> json) list \<Rightarrow> string \<Rightarrow> json \<Rightarrow> json" where
  "dict_get kvs k d = (case map_of kvs k of None \<Rightarrow> d | Some v \<Rightarrow> v)"

text \<open>
  The exceptions that can leave the client's methods: the two \<^verbatim>\<open>ValueError\<close>s it
  raises itself, the \<^verbatim>\<open>HTTPError\<close> of \<^verbatim>\<open>raise_for_status\<close>, and the errors
  Python raises on data of the wrong shape or on a dead connection.
\<close>

datatype exn =
    ValueError string
  | HTTPError int
  | JSONDecodeError
  | AttributeError
  | TypeError
  | OverflowError
  | ConnectionError
  | EOFError

text \<open>\<^verbatim>\<open>v.get(k, default)\<close> on any value: only a dict has the method.\<close>

fun py_get :: "json \<Rightarrow> string \<Rightarrow> json \<Rightarrow> exn + json" where
  "py_get (JObj kvs) k d = Inr (dict_get kvs k d)"
| "py_get _ k d = Inl AttributeError"

text \<open>
  An f-string is kept as its pieces, so that a value that is not a string (a status
  code, an exception, a token of any JSON type) needs no rendering.
\<close>

datatype piece = Lit string | PyInt int | PyVal json | PyExn exn

type_synonym fstring = "piece list"

datatype level = INFO | ERROR

record request =
  req_method :: string
  req_url :: string
  req_headers :: "(string \<times> fstring) list"
  req_params :: "(string \<times> json) list"
  req_json :: "json option"

text \<open>
  A response as the client reads it: the status code, the body as text, and what
  \<^verbatim>\<open>response.json()\<close> gives (\<open>None\<close> when the body is not JSON and the call
  raises).
\<close>

record response =
  status_code :: int
  resp_text :: string
  json_body :: "json option"

text \<open>What \<^verbatim>\<open>json.load\<close> finds in a file.\<close>

datatype file_content = JsonFile json | NotJson

section \<open>The client and its environment\<close>

record client =
  client_id :: string
  client_secret :: string
  redirect_uri :: string
  organization_id :: string
  temp_file :: string
  access_token :: json
  refresh_token :: json
  token_expiry :: "int option"

text \<open>
  Everything outside the object: the clock read by \<^verbatim>\<open>datetime.now()\<close> (in seconds
  from 0001-01-01, the least datetime), the files, the lines waiting on standard input
  and the prompts printed, the replies the network will give to the next requests
  (\<open>None\<close>, or no reply left, is a connection that fails), the exchanges made so far,
  oldest first, and the records handed to the logger.
\<close>

record world =
  now :: int
  fs :: "string \<Rightarrow> file_content option"
  stdin :: "string list"
  stdout :: "string list"
  pending :: "response option list"
  wire :: "(request \<times> response option) list"
  logged :: "(level \<times> fstring) list"

definition BASE_URL :: string where
  "BASE_URL = ''https://www.zohoapis.com/books/v3''"

definition TOKEN_URL :: string where
  "TOKEN_URL = ''https://accounts.zoho.com/oauth/v2/token''"

definition log :: "level \<Rightarrow> fstring \<Rightarrow> world \<Rightarrow> world" where
  "log lv msg w = w\<lparr>logged := logged w @ [(lv, msg)]\<rparr>"

text \<open>\<^verbatim>\<open>requests.request\<close> / \<^verbatim>\<open>requests.post\<close>: one exchange on the wire.\<close>

definition next_reply :: "world \<Rightarrow> response option" where
  "next_reply w = (case pending w of [] \<Rightarrow> None | x # xs \<Rightarrow> x)"

definition http_send :: "request \<Rightarrow> world \<Rightarrow> (exn + response) \<times> world" where
  "http_send rq w =
     (let rep = next_reply w;
          w' = w\<lparr>pending := tl (pending w), wire := wire w @ [(rq, rep)]\<rparr>
      in (case rep of None \<Rightarrow> (Inl ConnectionError, w') | Some r \<Rightarrow> (Inr r, w')))"


text \<open>
  \<^verbatim>\<open>datetime.now() + timedelta(seconds=v)\<close>: a number of seconds is an int (a bool is
  one); any other value is a TypeError, and a result past year 9999 or before year 1
  an OverflowError.
\<close>

definition DATETIME_MAX :: int where
  "DATETIME_MAX = 315537897599"

definition add_seconds :: "int \<Rightarrow> int \<Rightarrow> exn + int" where
  "add_seconds t n = (if 0 \<le> t + n \<and> t + n \<le> DATETIME_MAX then Inr (t + n) else Inl OverflowError)"

fun expiry_after :: "int \<Rightarrow> json \<Rightarrow> exn + int" where
  "expiry_after t (JNum n) = add_seconds t n"
| "expiry_after t (JBool b) = add_seconds t (if b then 1 else 0)"
| "expiry_after t _ = Inl TypeError"

text \<open>\<^verbatim>\<open>response.json().get(k, default)\<close>.\<close>

definition json_get :: "response \<Rightarrow> string \<Rightarrow> json \<Rightarrow> exn + json" where
  "json_get r k d = (case json_body r of None \<Rightarrow> Inl JSONDecodeError | Some v \<Rightarrow> py_get v k d)"

section \<open>Token manager\<close>

definition store_refresh_token :: "client \<Rightarrow> world \<Rightarrow> world" where
  "store_refresh_token c w =
     w\<lparr>fs := (fs w)(temp_file c \<mapsto> JsonFile (JObj [(''refresh_token'', refresh_token c)]))\<rparr>"

definition load_refresh_token :: "client \<Rightarrow> world \<Rightarrow> exn + client" where
  "load_refresh_token c w =
     (case fs w (temp_file c) of
        None \<Rightarrow> Inr c
      | Some NotJson \<Rightarrow> Inl JSONDecodeError
      | Some (JsonFile data) \<Rightarrow>
          (case py_get data ''refresh_token'' JNull of
             Inl e \<Rightarrow> Inl e
           | Inr v \<Rightarrow> Inr (c\<lparr>refresh_token := v\<rparr>)))"

definition grant_request :: "client \<Rightarrow> string \<Rightarrow> request" where
  "grant_request c code =
     \<lparr>req_method = ''POST'', req_url = TOKEN_URL, req_headers = [],
      req_params = [(''code'', JStr code),
                    (''client_id'', JStr (client_id c)),
                    (''client_secret'', JStr (client_secret c)),
                    (''redirect_uri'', JStr (redirect_uri c)),
                    (''grant_type'', JStr ''authorization_code'')],
      req_json = None\<rparr>"

definition get_grant_token :: "client \<Rightarrow> string \<Rightarrow> world \<Rightarrow> (exn + bool) \<times> client \<times> world" where
  "get_grant_token c code w =
     (case http_send (grant_request c code) w of
        (Inl e, w1) \<Rightarrow> (Inl e, c, w1)
      | (Inr r, w1) \<Rightarrow>
          if status_code r = 200 then
            (case json_body r of
               None \<Rightarrow> (Inl JSONDecodeError, c, w1)
             | Some data \<Rightarrow>
                 (case py_get data ''access_token'' JNull of
                    Inl e \<Rightarrow> (Inl e, c, w1)
                  | Inr a \<Rightarrow>
                      (let c1 = c\<lparr>access_token := a\<rparr> in
                       case py_get data ''refresh_token'' JNull of
                         Inl e \<Rightarrow> (Inl e, c1, w1)
                       | Inr rt \<Rightarrow>
                           (let c2 = c1\<lparr>refresh_token := rt\<rparr> in
                            case py_get data ''expires_in'' (JNum 3600) of
                              Inl e \<Rightarrow> (Inl e, c2, w1)
                            | Inr ex \<Rightarrow>
                                (case expiry_after (now w1) ex of
                                   Inl e \<Rightarrow> (Inl e, c2, w1)
                                 | Inr t \<Rightarrow>
                                     (let c3 = c2\<lparr>token_expiry := Some t\<rparr>;
                                          w2 = store_refresh_token c3 w1
                                      in (Inr True, c3,
                                          log INFO [Lit ''Successfully obtained grant token and refresh token.''] w2)))))))
          else
            (Inr False, c,
             log ERROR [Lit ''Response: '', Lit (resp_text r)]
               (log ERROR [Lit ''Grant token request failed with status code: '', PyInt (status_code r)] w1)))"

definition refresh_request :: "client \<Rightarrow> request" where
  "refresh_request c =
     \<lparr>req_method = ''POST'', req_url = TOKEN_URL, req_headers = [],
      req_params = [(''refresh_token'', refresh_token c),
                    (''client_id'', JStr (client_id c)),
                    (''client_secret'', JStr (client_secret c)),
                    (''redirect_uri'', JStr (redirect_uri c)),
                    (''grant_type'', JStr ''refresh_token'')],
      req_json = None\<rparr>"

definition refresh_access_token :: "client \<Rightarrow> world \<Rightarrow> (exn + bool) \<times> client \<times> world" where
  "refresh_access_token c w =
     (case (if \<not> truthy (refresh_token c) then load_refresh_token c w else Inr c) of
        Inl e \<Rightarrow> (Inl e, c, w)
      | Inr c1 \<Rightarrow>
          if \<not> truthy (refresh_token c1) then
            (Inr False, c1, log ERROR [Lit ''No refresh token available.''] w)
          else
            (case http_send (refresh_request c1) w of
               (Inl e, w1) \<Rightarrow> (Inl e, c1, w1)
             | (Inr r, w1) \<Rightarrow>
                 if status_code r = 200 then
                   (case json_body r of
                      None \<Rightarrow> (Inl JSONDecodeError, c1, w1)
                    | Some data \<Rightarrow>
                        (case py_get data ''access_token'' JNull of
                           Inl e \<Rightarrow> (Inl e, c1, w1)
                         | Inr a \<Rightarrow>
                             (let c2 = c1\<lparr>access_token := a\<rparr> in
                              case py_get data ''expires_in'' (JNum 3600) of
                                Inl e \<Rightarrow> (Inl e, c2, w1)
                              | Inr ex \<Rightarrow>
                                  (case expiry_after (now w1) ex of
                                     Inl e \<Rightarrow> (Inl e, c2, w1)
                                   | Inr t \<Rightarrow>
                                       (Inr True, c2\<lparr>token_expiry := Some t\<rparr>,
                                        log INFO [Lit ''Successfully refreshed access token.''] w1)))))
                 else
                   (Inr False, c1,
                    log ERROR [Lit ''Response: '', Lit (resp_text r)]
                      (log ERROR [Lit ''Failed to refresh access token. Status code: '', PyInt (status_code r)] w1))))"

definition token_expired :: "client \<Rightarrow> world \<Rightarrow> bool" where
  "token_expired c w = (case token_expiry c of None \<Rightarrow> False | Some t \<Rightarrow> t \<le> now w)"

definition ensure_valid_token :: "client \<Rightarrow> world \<Rightarrow> (exn + bool) \<times> client \<times> world" where
  "ensure_valid_token c w =
     (if \<not> truthy (access_token c) \<or> token_expired c w
      then refresh_access_token c w
      else (Inr True, c, w))"

definition get_access_token :: "client \<Rightarrow> world \<Rightarrow> (exn + json) \<times> client \<times> world" where
  "get_access_token c w =
     (case ensure_valid_token c w of
        (Inl e, c1, w1) \<Rightarrow> (Inl e, c1, w1)
      | (Inr ok, c1, w1) \<Rightarrow> (Inr (if ok then access_token c1 else JNull), c1, w1))"



section \<open>Request dispatcher\<close>

text \<open>
  \<^verbatim>\<open>Response.raise_for_status\<close> of the requests library raises HTTPError for a
  client error (4xx) and for a server error (5xx), and for no other status.
\<close>

definition raise_for_status :: "response \<Rightarrow> exn option" where
  "raise_for_status r =
     (if 400 \<le> status_code r \<and> status_code r < 600 then Some (HTTPError (status_code r)) else None)"

definition resource_request :: "client \<Rightarrow> json \<Rightarrow> string \<Rightarrow> string \<Rightarrow> (string \<times> json) list option \<Rightarrow> json option \<Rightarrow> request" where
  "resource_request c tok method endpoint params payload =
     \<lparr>req_method = method,
      req_url = BASE_URL @ ''/'' @ endpoint,
      req_headers = [(''Authorization'', [Lit ''Zoho-oauthtoken '', PyVal tok]),
                     (''Content-Type'', [Lit ''application/json;charset=UTF-8''])],
      req_params = AList.update ''organization_id'' (JStr (organization_id c))
                     (case params of None \<Rightarrow> [] | Some p \<Rightarrow> p),
      req_json = payload\<rparr>"

definition make_request ::
  "client \<Rightarrow> string \<Rightarrow> string \<Rightarrow> (string \<times> json) list option \<Rightarrow> json option \<Rightarrow> world
   \<Rightarrow> (exn + response) \<times> client \<times> world" where
  "make_request c method endpoint params payload w =
     (case get_access_token c w of
        (Inl e, c1, w1) \<Rightarrow> (Inl e, c1, w1)
      | (Inr tok, c1, w1) \<Rightarrow>
          if \<not> truthy tok then
            (Inl (ValueError ''Failed to obtain a valid access token.''), c1,
             log ERROR [Lit ''Failed to obtain a valid access token.''] w1)
          else
            (let rq = resource_request c1 tok method endpoint params payload;
                 w2 = log INFO [Lit ''Making '', Lit method, Lit '' request to '', Lit (req_url rq)] w1
             in case http_send rq w2 of
                  (Inl e, w3) \<Rightarrow> (Inl e, c1, w3)
                | (Inr r, w3) \<Rightarrow>
                    (case raise_for_status r of
                       Some e \<Rightarrow>
                         (Inl e, c1,
                          log ERROR [Lit ''Response content: '', Lit (resp_text r)]
                            (log ERROR [Lit ''HTTP error occurred: '', PyExn e] w3))
                     | None \<Rightarrow>
                         (Inr r, c1,
                          log INFO [Lit ''Request to '', Lit (req_url rq), Lit '' successful''] w3))))"

section \<open>Resource operations\<close>

definition list_invoices :: "client \<Rightarrow> world \<Rightarrow> (exn + json) \<times> client \<times> world" where
  "list_invoices c w =
     (case make_request c ''GET'' ''invoices'' None None w of
        (Inl e, c1, w1) \<Rightarrow> (Inl e, c1, w1)
      | (Inr r, c1, w1) \<Rightarrow> (json_get r ''invoices'' (JArr []), c1, w1))"


definition list_items :: "client \<Rightarrow> world \<Rightarrow> (exn + json) \<times> client \<times> world" where
  "list_items c w =
     (case make_request c ''GET'' ''items'' None None w of
        (Inl e, c1, w1) \<Rightarrow> (Inl e, c1, w1)
      | (Inr r, c1, w1) \<Rightarrow> (json_get r ''items'' (JArr []), c1, w1))"

text \<open>
  One entry of \<^verbatim>\<open>line_items\<close>, built from a looked-up item; \<^verbatim>\<open>item.get\<close> needs
  the item to be a dict.
\<close>

fun line_item :: "string \<Rightarrow> int \<Rightarrow> json \<Rightarrow> exn + json" where
  "line_item item_id quantity (JObj kvs) =
     Inr (JObj [(''item_id'', JStr item_id),
                (''name'', dict_get kvs ''name'' JNull),
                (''description'', dict_get kvs ''description'' JNull),
                (''rate'', dict_get kvs ''rate'' JNull),
                (''quantity'', JNum quantity)])"
| "line_item item_id quantity _ = Inl AttributeError"



definition list_contacts :: "client \<Rightarrow> world \<Rightarrow> (exn + json) \<times> client \<times> world" where
  "list_contacts c w =
     (case make_request c ''GET'' ''contacts'' None None w of
        (Inl e, c1, w1) \<Rightarrow> (Inl e, c1, w1)
      | (Inr r, c1, w1) \<Rightarrow> (json_get r ''contacts'' (JArr []), c1, w1))"

section \<open>Observations used in the statements\<close>

text \<open>A request to the resource API, as opposed to one to the token endpoint.\<close>

definition is_resource :: "request \<Rightarrow> bool" where
  "is_resource rq = (take (length BASE_URL) (req_url rq) = BASE_URL)"

definition resource_calls :: "world \<Rightarrow> (request \<times> response option) list" where
  "resource_calls w = filter (\<lambda>x. is_resource (fst x)) (wire w)"

text \<open>
  A refresh token is at hand for \<^verbatim>\<open>refresh_access_token\<close>: in memory, or else in
  the file it loads.
\<close>

definition refresh_token_available :: "client \<Rightarrow> world \<Rightarrow> bool" where
  "refresh_token_available c w =
     (truthy (refresh_token c) \<or>
      (case fs w (temp_file c) of
         Some (JsonFile (JObj kvs)) \<Rightarrow> truthy (dict_get kvs ''refresh_token'' JNull)
       | _ \<Rightarrow> False))"




section \<open>Example data\<close>

text \<open>
  A client as \<^verbatim>\<open>__init__\<close> leaves it before any token is known, a world in which
  nothing has happened yet, and replies of the token endpoint.
\<close>

definition acme :: client where
  "acme = \<lparr>client_id = ''1000.ABC'', client_secret = ''s3cret'',
           redirect_uri = ''https://example.org/callback'', organization_id = ''60001'',
           temp_file = ''zoho_refresh_token.json'',
           access_token = JNull, refresh_token = JNull, token_expiry = None\<rparr>"

definition quiet :: world where
  "quiet = \<lparr>now = 63800000000, fs = Map.empty, stdin = [], stdout = [],
            pending = [], wire = [], logged = []\<rparr>"

definition token_reply :: response where
  "token_reply =
     \<lparr>status_code = 200,
      resp_text = ''{access_token: at-2, refresh_token: rt-2, expires_in: 3600}'',
      json_body = Some (JObj [(''access_token'', JStr ''at-2''),
                              (''refresh_token'', JStr ''rt-2''),
                              (''expires_in'', JNum 3600)])\<rparr>"

definition denied_reply :: response where
  "denied_reply =
     \<lparr>status_code = 401, resp_text = ''{error: invalid_client}'',
      json_body = Some (JObj [(''error'', JStr ''invalid_client'')])\<rparr>"

definition token_file :: "json \<Rightarrow> string \<Rightarrow> file_content option" where
  "token_file v = Map.empty(''zoho_refresh_token.json'' \<mapsto> JsonFile (JObj [(''refresh_token'', v)]))"

definition stale_client :: client where
  "stale_client = acme\<lparr>access_token := JStr ''at-1'', refresh_token := JStr ''rt-1'',
                        token_expiry := Some 63799999000\<rparr>"

definition fresh_client :: client where
  "fresh_client = acme\<lparr>access_token := JStr ''at-1'', refresh_token := JStr ''rt-1'',
                        token_expiry := Some 63800003600\<rparr>"

text \<open>
  Replies with status 200 that are not what the token endpoint documents: the lifetime
  as a string, and a body that is a JSON array. A reply with another 2xx status.
\<close>

definition bad_expiry_reply :: response where
  "bad_expiry_reply =
     \<lparr>status_code = 200,
      resp_text = ''{access_token: at-2, refresh_token: rt-2, expires_in: 1h}'',
      json_body = Some (JObj [(''access_token'', JStr ''at-2''),
                              (''refresh_token'', JStr ''rt-2''),
                              (''expires_in'', JStr ''1h'')])\<rparr>"

definition array_reply :: response where
  "array_reply = \<lparr>status_code = 200, resp_text = ''[]'', json_body = Some (JArr [])\<rparr>"

definition created_reply :: response where
  "created_reply = token_reply\<lparr>status_code := 201\<rparr>"

text \<open>
  A reply of the token endpoint that carries no refresh token, and the client and world
  two hours after the authorization-code exchange was answered with it.
\<close>

definition access_only_reply :: response where
  "access_only_reply =
     \<lparr>status_code = 200, resp_text = ''{access_token: at-2, expires_in: 3600}'',
      json_body = Some (JObj [(''access_token'', JStr ''at-2''), (''expires_in'', JNum 3600)])\<rparr>"

definition two_hours_after_grant :: "client \<times> world" where
  "two_hours_after_grant =
     (case get_grant_token acme ''code-1'' (quiet\<lparr>pending := [Some access_only_reply]\<rparr>) of
        (res, c, w) \<Rightarrow> (c, w\<lparr>now := now w + 7200, pending := [Some token_reply]\<rparr>))"

text \<open>Replies of the resource API.\<close>

definition not_modified_reply :: response where
  "not_modified_reply = \<lparr>status_code = 304, resp_text = [], json_body = None\<rparr>"

definition server_error_reply :: response where
  "server_error_reply =
     \<lparr>status_code = 500, resp_text = ''{code: 1000, message: Internal Error}'',
      json_body = Some (JObj [(''code'', JNum 1000), (''message'', JStr ''Internal Error'')])\<rparr>"

definition invoices_reply :: response where
  "invoices_reply =
     \<lparr>status_code = 200, resp_text = ''{code: 0, invoices: [{invoice_id: 9001}]}'',
      json_body = Some (JObj [(''code'', JNum 0),
                              (''invoices'', JArr [JObj [(''invoice_id'', JStr ''9001'')]])])\<rparr>"

definition no_field_reply :: response where
  "no_field_reply =
     \<lparr>status_code = 200, resp_text = ''{code: 0}'', json_body = Some (JObj [(''code'', JNum 0)])\<rparr>"

text \<open>A reply of the token endpoint whose access token has no lifetime left.\<close>

definition zero_life_reply :: response where
  "zero_life_reply =
     \<lparr>status_code = 200,
      resp_text = ''{access_token: at-2, refresh_token: rt-2, expires_in: 0}'',
      json_body = Some (JObj [(''access_token'', JStr ''at-2''),
                              (''refresh_token'', JStr ''rt-2''),
                              (''expires_in'', JNum 0)])\<rparr>"


text \<open>Replies to an item lookup and to the creation of an invoice.\<close>

definition item_reply :: response where
  "item_reply =
     \<lparr>status_code = 200, resp_text = ''{code: 0, item: {name: Widget, rate: 10}}'',
      json_body = Some (JObj [(''code'', JNum 0),
                              (''item'', JObj [(''name'', JStr ''Widget''), (''rate'', JNum 10)])])\<rparr>"

definition not_found_reply :: response where
  "not_found_reply =
     \<lparr>status_code = 404, resp_text = ''{code: 1002, message: Item does not exist.}'',
      json_body = Some (JObj [(''code'', JNum 1002), (''message'', JStr ''Item does not exist.'')])\<rparr>"

definition invoice_created_reply :: response where
  "invoice_created_reply =
     \<lparr>status_code = 201, resp_text = ''{code: 0, invoice: {invoice_id: 9002}}'',
      json_body = Some (JObj [(''code'', JNum 0),
                              (''invoice'', JObj [(''invoice_id'', JStr ''9002'')])])\<rparr>"

section \<open>Basic facts\<close>

lemma py_get_Inr: "py_get v k d = Inr x \<longleftrightarrow> (\<exists>kvs. v = JObj kvs \<and> x = dict_get kvs k d)"
  by (cases v) auto

lemma py_get_Inl: "py_get v k d = Inl e \<longleftrightarrow> (e = AttributeError \<and> (\<forall>kvs. v \<noteq> JObj kvs))"
  by (cases v) auto

lemma http_send_world:
  "http_send rq w = (res, w') \<Longrightarrow>
     w' = w\<lparr>pending := tl (pending w), wire := wire w @ [(rq, next_reply w)]\<rparr> \<and>
     res = (case next_reply w of None \<Rightarrow> Inl ConnectionError | Some r \<Rightarrow> Inr r)"
  by (auto simp: http_send_def Let_def split: option.splits)

lemma load_refresh_token_cases:
  "load_refresh_token c w = Inr c1 \<Longrightarrow>
     (fs w (temp_file c) = None \<and> c1 = c) \<or>
     (\<exists>kvs. fs w (temp_file c) = Some (JsonFile (JObj kvs)) \<and>
            c1 = c\<lparr>refresh_token := dict_get kvs ''refresh_token'' JNull\<rparr>)"
  by (auto simp: load_refresh_token_def py_get_Inr split: option.splits file_content.splits sum.splits)

lemma load_refresh_token_Inl:
  "load_refresh_token c w = Inl e \<Longrightarrow>
     fs w (temp_file c) = Some NotJson \<or>
     (\<exists>v. fs w (temp_file c) = Some (JsonFile v) \<and> (\<forall>kvs. v \<noteq> JObj kvs))"
  by (auto simp: load_refresh_token_def py_get_Inl split: option.splits file_content.splits sum.splits)

lemmas example_defs =
  acme_def quiet_def token_reply_def denied_reply_def token_file_def
  stale_client_def fresh_client_def bad_expiry_reply_def array_reply_def created_reply_def
  access_only_reply_def not_modified_reply_def server_error_reply_def invoices_reply_def
  no_field_reply_def zero_life_reply_def item_reply_def not_found_reply_def
  invoice_created_reply_def

lemmas run_defs =
  example_defs
  refresh_access_token_def load_refresh_token_def refresh_request_def
  http_send_def next_reply_def log_def dict_get_def add_seconds_def DATETIME_MAX_def
  Let_def

lemma split_result: "x = (fst x, fst (snd x), snd (snd x))"
  by simp

section \<open>Token refresh and the refresh token\<close>

lemma refresh_token_after_refresh:
  assumes "refresh_access_token c w = (res, c', w')"
  shows "refresh_token c' =
           (if truthy (refresh_token c) then refresh_token c
            else case fs w (temp_file c) of
                   Some (JsonFile (JObj kvs)) \<Rightarrow> dict_get kvs ''refresh_token'' JNull
                 | _ \<Rightarrow> refresh_token c)"
proof (cases "truthy (refresh_token c)")
  case True
  with assms show ?thesis
    by (auto simp: refresh_access_token_def log_def Let_def dest!: http_send_world
         split: if_splits sum.splits prod.splits option.splits)
next
  case False
  show ?thesis
  proof (cases "load_refresh_token c w")
    case (Inl e)
    with False assms have "c' = c" by (simp add: refresh_access_token_def)
    with False load_refresh_token_Inl [OF Inl] show ?thesis by (auto split: json.splits)
  next
    case (Inr c1)
    with False assms have "refresh_token c' = refresh_token c1"
      by (auto simp: refresh_access_token_def log_def Let_def dest!: http_send_world
           split: if_splits sum.splits prod.splits option.splits)
    with False load_refresh_token_cases [OF Inr] show ?thesis by auto
  qed
qed

lemma refresh_fs:
  assumes "refresh_access_token c w = (res, c', w')"
  shows "fs w' = fs w"
  using assms
  by (auto simp: refresh_access_token_def log_def Let_def dest!: http_send_world
       split: if_splits sum.splits prod.splits option.splits)

lemma refresh_tokens_kept:
  assumes "refresh_access_token c w = (res, c', w')"
    and "res = Inr False \<or> (case next_reply w of None \<Rightarrow> True | Some r \<Rightarrow> status_code r \<noteq> 200)"
  shows "access_token c' = access_token c \<and> token_expiry c' = token_expiry c"
  using assms
  by (auto simp: refresh_access_token_def log_def Let_def
       dest!: http_send_world load_refresh_token_cases
       split: if_splits sum.splits prod.splits option.splits)

lemma grant_writes_file:
  assumes "get_grant_token c code w = (res, c', w')"
  shows "fs w' = (if res = Inr True
                  then (fs w)(temp_file c \<mapsto> JsonFile (JObj [(''refresh_token'', refresh_token c')]))
                  else fs w)"
  using assms
  by (auto simp: get_grant_token_def store_refresh_token_def log_def Let_def
       dest!: http_send_world
       split: if_splits sum.splits prod.splits option.splits)

text \<open>
  Claim C10, as the code has it. \<^verbatim>\<open>refresh_access_token\<close> never writes the
  refresh-token file; of the two token exchanges only the authorization-code exchange
  \<^verbatim>\<open>get_grant_token\<close> writes it, exactly when it returns True. A refresh token in
  memory that is truthy (not None, not the empty string) stays as it is. One that is
  falsy is replaced by the \<open>refresh_token\<close> entry of the file when the file holds a
  JSON object (by None when the object has no such entry), and stays as it is
  otherwise. In no case does the value come from the response. When the method returns
  False, and when the token endpoint answers with a status other than 200 or not at
  all, the access token and the expiry are unchanged.
\<close>

theorem refresh_access_token_frame:
  assumes "refresh_access_token c w = (res, c', w')"
  shows "fs w' = fs w
       \<and> refresh_token c' =
           (if truthy (refresh_token c) then refresh_token c
            else case fs w (temp_file c) of
                   Some (JsonFile (JObj kvs)) \<Rightarrow> dict_get kvs ''refresh_token'' JNull
                 | _ \<Rightarrow> refresh_token c)
       \<and> (res = Inr False \<or> (case next_reply w of None \<Rightarrow> True | Some r \<Rightarrow> status_code r \<noteq> 200) \<longrightarrow>
            access_token c' = access_token c \<and> token_expiry c' = token_expiry c)
       \<and> (\<forall>code res2 c2 w2. get_grant_token c code w = (res2, c2, w2) \<longrightarrow>
            fs w2 = (if res2 = Inr True
                     then (fs w)(temp_file c \<mapsto> JsonFile (JObj [(''refresh_token'', refresh_token c2)]))
                     else fs w))"
  using refresh_fs [OF assms] refresh_token_after_refresh [OF assms]
    refresh_tokens_kept [OF assms] grant_writes_file
  by blast

text \<open>
  Four runs of it. The token \<open>rt-1\<close> is in memory, the file holds \<open>rt-0\<close> and the
  endpoint answers 200 with \<open>rt-2\<close>: memory keeps \<open>rt-1\<close> and the file \<open>rt-0\<close>.
  The token in memory is the empty string: the refresh puts the file's \<open>rt-0\<close> there.
  The endpoint answers 401: the access token and its expiry stay. The
  authorization-code exchange answered with 200: the file holds the token now in memory.
\<close>

theorem refresh_access_token_frame_witness:
  "truthy (refresh_token stale_client)
   \<and> map_of (case json_body token_reply of Some (JObj kvs) \<Rightarrow> kvs | _ \<Rightarrow> []) ''refresh_token''
       = Some (JStr ''rt-2'')
   \<and> refresh_token (fst (snd (refresh_access_token stale_client
          (quiet\<lparr>fs := token_file (JStr ''rt-0''), pending := [Some token_reply]\<rparr>)))) = JStr ''rt-1''
   \<and> fs (snd (snd (refresh_access_token stale_client
          (quiet\<lparr>fs := token_file (JStr ''rt-0''), pending := [Some token_reply]\<rparr>))))
       = token_file (JStr ''rt-0'')
   \<and> \<not> truthy (refresh_token (stale_client\<lparr>refresh_token := JStr []\<rparr>))
   \<and> refresh_token (fst (snd (refresh_access_token (stale_client\<lparr>refresh_token := JStr []\<rparr>)
          (quiet\<lparr>fs := token_file (JStr ''rt-0''), pending := [Some token_reply]\<rparr>)))) = JStr ''rt-0''
   \<and> status_code denied_reply \<noteq> 200
   \<and> access_token (fst (snd (refresh_access_token stale_client
          (quiet\<lparr>pending := [Some denied_reply]\<rparr>)))) = JStr ''at-1''
   \<and> token_expiry (fst (snd (refresh_access_token stale_client
          (quiet\<lparr>pending := [Some denied_reply]\<rparr>)))) = Some 63799999000
   \<and> fst (get_grant_token stale_client ''code-1'' (quiet\<lparr>pending := [Some token_reply]\<rparr>)) = Inr True
   \<and> fs (snd (snd (get_grant_token stale_client ''code-1'' (quiet\<lparr>pending := [Some token_reply]\<rparr>))))
       = token_file (refresh_token (fst (snd (get_grant_token stale_client ''code-1''
            (quiet\<lparr>pending := [Some token_reply]\<rparr>)))))"
proof -
  define w1 where "w1 = quiet\<lparr>fs := token_file (JStr ''rt-0''), pending := [Some token_reply]\<rparr>"
  define w2 where "w2 = quiet\<lparr>pending := [Some denied_reply]\<rparr>"
  define w3 where "w3 = quiet\<lparr>pending := [Some token_reply]\<rparr>"
  define c0 where "c0 = stale_client\<lparr>refresh_token := JStr []\<rparr>"
  define held where "held = refresh_access_token stale_client w1"
  define loaded where "loaded = refresh_access_token c0 w1"
  define denied where "denied = refresh_access_token stale_client w2"
  define granted where "granted = get_grant_token stale_client ''code-1'' w3"
  have ok: "fst granted = Inr True"
    by (simp add: granted_def w3_def get_grant_token_def grant_request_def store_refresh_token_def run_defs)
  have g: "get_grant_token stale_client ''code-1'' w3 = (fst granted, fst (snd granted), snd (snd granted))"
    by (simp add: granted_def)
  have a: "fs (snd (snd held)) = fs w1 \<and> refresh_token (fst (snd held)) = JStr ''rt-1''"
    using refresh_access_token_frame [of stale_client w1 "fst held" "fst (snd held)" "snd (snd held)"]
    by (simp add: held_def stale_client_def acme_def)
  have b: "refresh_token (fst (snd loaded)) = JStr ''rt-0''"
    using refresh_access_token_frame [of c0 w1 "fst loaded" "fst (snd loaded)" "snd (snd loaded)"]
    by (simp add: loaded_def c0_def w1_def example_defs dict_get_def)
  have c: "access_token (fst (snd denied)) = JStr ''at-1'' \<and>
           token_expiry (fst (snd denied)) = Some 63799999000"
    using refresh_access_token_frame [of stale_client w2 "fst denied" "fst (snd denied)" "snd (snd denied)"]
    by (simp add: denied_def w2_def example_defs next_reply_def)
  have "fs (snd (snd granted)) =
          (if fst granted = Inr True
           then (fs w3)(temp_file stale_client \<mapsto>
                  JsonFile (JObj [(''refresh_token'', refresh_token (fst (snd granted)))]))
           else fs w3)"
    using refresh_access_token_frame [OF split_result, of stale_client w3] g by blast
  with ok have d: "fs (snd (snd granted)) = token_file (refresh_token (fst (snd granted)))"
    by (simp add: w3_def example_defs)
  from a b c d ok show ?thesis
    by (simp add: held_def loaded_def denied_def granted_def w1_def w2_def w3_def c0_def example_defs)
qed

text \<open>
  The claim as written ("never modifies the stored refresh token") fails: with no
  refresh token in memory and \<open>rt-0\<close> in the file, the refresh puts \<open>rt-0\<close> in memory
  (and not the \<open>rt-2\<close> of the response).
\<close>

theorem refresh_access_token_loads_refresh_token:
  "refresh_token (fst (snd (refresh_access_token acme
      (quiet\<lparr>fs := token_file (JStr ''rt-0''), pending := [Some token_reply]\<rparr>)))) = JStr ''rt-0''
   \<and> refresh_token acme = JNull"
  by (simp add: run_defs)

section \<open>The authorization-code exchange\<close>




section \<open>The refresh exchange\<close>

lemma load_when_available:
  assumes "refresh_token_available c w" and "\<not> truthy (refresh_token c)"
  shows "\<exists>v. truthy v \<and> load_refresh_token c w = Inr (c\<lparr>refresh_token := v\<rparr>)"
  using assms
  by (auto simp: refresh_token_available_def load_refresh_token_def
       split: option.splits file_content.splits json.splits)

lemma load_when_unavailable:
  assumes "\<not> refresh_token_available c w"
  shows "(\<exists>e. load_refresh_token c w = Inl e) \<or>
         (\<exists>c1. load_refresh_token c w = Inr c1 \<and> \<not> truthy (refresh_token c1))"
  using assms
  by (auto simp: refresh_token_available_def load_refresh_token_def
       split: option.splits file_content.splits json.splits)

lemma refresh_after_load:
  assumes "\<not> truthy (refresh_token c)" and "load_refresh_token c w = Inr c1"
    and "truthy (refresh_token c1)"
  shows "refresh_access_token c w = refresh_access_token c1 w"
  using assms by (simp add: refresh_access_token_def)

lemma refresh_held_wire:
  assumes "refresh_access_token c w = (res, c', w')" and "truthy (refresh_token c)"
  shows "wire w' = wire w @ [(refresh_request c', next_reply w)] \<and> pending w' = tl (pending w)"
  using assms
  by (auto simp: refresh_access_token_def refresh_request_def log_def Let_def
       dest!: http_send_world
       split: if_splits sum.splits prod.splits option.splits)

lemma refresh_held_outcome:
  assumes "refresh_access_token c w = (res, c', w')" and "truthy (refresh_token c)"
  shows "case next_reply w of
           None \<Rightarrow> res = Inl ConnectionError
         | Some r \<Rightarrow>
             if status_code r = 200 then
               (\<forall>kvs t. json_body r = Some (JObj kvs) \<and>
                        expiry_after (now w) (dict_get kvs ''expires_in'' (JNum 3600)) = Inr t \<longrightarrow>
                  res = Inr True \<and> access_token c' = dict_get kvs ''access_token'' JNull \<and>
                  token_expiry c' = Some t)
             else res = Inr False \<and> access_token c' = access_token c \<and>
                  token_expiry c' = token_expiry c"
  using assms
  by (auto simp: refresh_access_token_def log_def Let_def
       dest!: http_send_world
       split: if_splits sum.splits prod.splits option.splits)

lemma refresh_wire:
  assumes r: "refresh_access_token c w = (res, c', w')"
  shows "(refresh_token_available c w \<longrightarrow>
            wire w' = wire w @ [(refresh_request c', next_reply w)] \<and> pending w' = tl (pending w))
       \<and> (\<not> refresh_token_available c w \<longrightarrow>
            wire w' = wire w \<and> pending w' = pending w \<and> res \<noteq> Inr True)"
proof (cases "refresh_token_available c w")
  case True
  show ?thesis
  proof (cases "truthy (refresh_token c)")
    case held: True
    with True refresh_held_wire [OF r] show ?thesis by simp
  next
    case False
    from load_when_available [OF True False] obtain v
      where v: "truthy v" "load_refresh_token c w = Inr (c\<lparr>refresh_token := v\<rparr>)" by blast
    with False r have "refresh_access_token (c\<lparr>refresh_token := v\<rparr>) w = (res, c', w')"
      by (simp add: refresh_after_load)
    from refresh_held_wire [OF this] v True show ?thesis by simp
  qed
next
  case False
  then have nt: "\<not> truthy (refresh_token c)" by (simp add: refresh_token_available_def)
  from load_when_unavailable [OF False] r nt False show ?thesis
    by (auto simp: refresh_access_token_def log_def)
qed

lemma refresh_outcome:
  assumes r: "refresh_access_token c w = (res, c', w')" and a: "refresh_token_available c w"
  shows "case next_reply w of
           None \<Rightarrow> res = Inl ConnectionError
         | Some r \<Rightarrow>
             if status_code r = 200 then
               (\<forall>kvs t. json_body r = Some (JObj kvs) \<and>
                        expiry_after (now w) (dict_get kvs ''expires_in'' (JNum 3600)) = Inr t \<longrightarrow>
                  res = Inr True \<and> access_token c' = dict_get kvs ''access_token'' JNull \<and>
                  token_expiry c' = Some t)
             else res = Inr False \<and> access_token c' = access_token c \<and>
                  token_expiry c' = token_expiry c"
proof (cases "truthy (refresh_token c)")
  case True
  from refresh_held_outcome [OF r True] show ?thesis .
next
  case False
  from load_when_available [OF a False] obtain v
    where v: "truthy v" "load_refresh_token c w = Inr (c\<lparr>refresh_token := v\<rparr>)" by blast
  with False r have "refresh_access_token (c\<lparr>refresh_token := v\<rparr>) w = (res, c', w')"
    by (simp add: refresh_after_load)
  from refresh_held_outcome [OF this] v(1) show ?thesis
    by (auto split: option.splits if_splits)
qed

section \<open>Keeping the access token valid\<close>

lemma triple_eqI: "fst x = a \<Longrightarrow> fst (snd x) = b \<Longrightarrow> snd (snd x) = c \<Longrightarrow> x = (a, b, c)"
  by (cases x) auto

text \<open>
  Claim C2, as the code has it. \<^verbatim>\<open>_ensure_valid_token\<close> returns True without any
  network call, and changes nothing, when the access token is truthy and its expiry is
  absent or still ahead. Otherwise (the access token is absent or empty, or the
  current time is at or past the expiry) it invokes the refresh and returns the
  refresh's verdict, which is not always True. With no refresh token at hand nothing
  is sent and the result is not True. With one at hand exactly one request goes to the
  token endpoint; an answer with status 200 and a well-formed body gives True, with
  the access token and the expiry of the answer in memory; an answer with any other
  status gives False, and the access token and the expiry stay as they were; no
  answer is a connection error.
\<close>

theorem ensure_valid_token_result:
  assumes "ensure_valid_token c w = (res, c', w')"
  shows "(truthy (access_token c) \<and> \<not> token_expired c w \<longrightarrow>
            res = Inr True \<and> c' = c \<and> w' = w)
       \<and> (\<not> truthy (access_token c) \<or> token_expired c w \<longrightarrow>
            (\<not> refresh_token_available c w \<longrightarrow> res \<noteq> Inr True \<and> wire w' = wire w) \<and>
            (refresh_token_available c w \<longrightarrow>
               wire w' = wire w @ [(refresh_request c', next_reply w)] \<and>
               (case next_reply w of
                  None \<Rightarrow> res = Inl ConnectionError
                | Some r \<Rightarrow>
                    if status_code r = 200 then
                      (\<forall>kvs t. json_body r = Some (JObj kvs) \<and>
                          expiry_after (now w) (dict_get kvs ''expires_in'' (JNum 3600)) = Inr t \<longrightarrow>
                         res = Inr True \<and> access_token c' = dict_get kvs ''access_token'' JNull \<and>
                         token_expiry c' = Some t)
                    else res = Inr False \<and> access_token c' = access_token c \<and>
                         token_expiry c' = token_expiry c)))"
proof (cases "truthy (access_token c) \<and> \<not> token_expired c w")
  case True
  with assms show ?thesis by (auto simp: ensure_valid_token_def)
next
  case False
  with assms have r: "refresh_access_token c w = (res, c', w')"
    by (auto simp: ensure_valid_token_def)
  show ?thesis
  proof (cases "refresh_token_available c w")
    case True
    with False r refresh_wire [OF r] refresh_outcome [OF r True] show ?thesis by (simp; blast?)
  next
    case na: False
    with False r refresh_wire [OF r] show ?thesis by (simp; blast?)
  qed
qed

text \<open>
  Three runs of it: a token that is still valid, an expired one renewed by an answer
  with status 200, and an expired one with the answer 401.
\<close>

theorem ensure_valid_token_result_witness:
  "truthy (access_token fresh_client)
   \<and> \<not> token_expired fresh_client (quiet\<lparr>pending := [Some token_reply]\<rparr>)
   \<and> ensure_valid_token fresh_client (quiet\<lparr>pending := [Some token_reply]\<rparr>)
       = (Inr True, fresh_client, quiet\<lparr>pending := [Some token_reply]\<rparr>)
   \<and> token_expired stale_client (quiet\<lparr>pending := [Some token_reply]\<rparr>)
   \<and> refresh_token_available stale_client (quiet\<lparr>pending := [Some token_reply]\<rparr>)
   \<and> fst (ensure_valid_token stale_client (quiet\<lparr>pending := [Some token_reply]\<rparr>)) = Inr True
   \<and> access_token (fst (snd (ensure_valid_token stale_client (quiet\<lparr>pending := [Some token_reply]\<rparr>))))
       = JStr ''at-2''
   \<and> token_expiry (fst (snd (ensure_valid_token stale_client (quiet\<lparr>pending := [Some token_reply]\<rparr>))))
       = Some 63800003600
   \<and> length (wire (snd (snd (ensure_valid_token stale_client (quiet\<lparr>pending := [Some token_reply]\<rparr>))))) = 1
   \<and> fst (ensure_valid_token stale_client (quiet\<lparr>pending := [Some denied_reply]\<rparr>)) = Inr False
   \<and> access_token (fst (snd (ensure_valid_token stale_client (quiet\<lparr>pending := [Some denied_reply]\<rparr>))))
       = JStr ''at-1''"
proof -
  define wt where "wt = quiet\<lparr>pending := [Some token_reply]\<rparr>"
  define wd where "wd = quiet\<lparr>pending := [Some denied_reply]\<rparr>"
  define kept where "kept = ensure_valid_token fresh_client wt"
  define renewed where "renewed = ensure_valid_token stale_client wt"
  define refused where "refused = ensure_valid_token stale_client wd"
  have h1: "truthy (access_token fresh_client) \<and> \<not> token_expired fresh_client wt"
    by (simp add: wt_def token_expired_def example_defs)
  have h2: "token_expired stale_client wt \<and> refresh_token_available stale_client wt"
    by (simp add: wt_def token_expired_def refresh_token_available_def example_defs)
  have h3: "token_expired stale_client wd \<and> refresh_token_available stale_client wd"
    by (simp add: wd_def token_expired_def refresh_token_available_def example_defs)
  have "fst kept = Inr True \<and> fst (snd kept) = fresh_client \<and> snd (snd kept) = wt"
    using ensure_valid_token_result [OF split_result, of fresh_client wt] h1
    by (simp add: kept_def)
  then have a: "kept = (Inr True, fresh_client, wt)"
    by (simp add: triple_eqI)
  have b: "fst renewed = Inr True \<and> access_token (fst (snd renewed)) = JStr ''at-2'' \<and>
           token_expiry (fst (snd renewed)) = Some 63800003600 \<and>
           length (wire (snd (snd renewed))) = 1"
    using ensure_valid_token_result [OF split_result, of stale_client wt] h2
    by (simp add: renewed_def wt_def quiet_def token_reply_def next_reply_def
          dict_get_def add_seconds_def DATETIME_MAX_def)
  have c: "fst refused = Inr False \<and> access_token (fst (snd refused)) = JStr ''at-1''"
    using ensure_valid_token_result [OF split_result, of stale_client wd] h3
    by (simp add: refused_def wd_def quiet_def denied_reply_def next_reply_def
          stale_client_def acme_def)
  from a b c h1 h2 show ?thesis
    by (simp add: kept_def renewed_def refused_def wt_def wd_def)
qed

text \<open>
  The claim as written ("returns true for every token state") fails for an expired
  token whose refresh is answered with 401: the method returns False and the access
  token is the old one.
\<close>

theorem ensure_valid_token_returns_false:
  "token_expired stale_client (quiet\<lparr>pending := [Some denied_reply]\<rparr>)
   \<and> fst (ensure_valid_token stale_client (quiet\<lparr>pending := [Some denied_reply]\<rparr>)) = Inr False
   \<and> access_token (fst (snd (ensure_valid_token stale_client (quiet\<lparr>pending := [Some denied_reply]\<rparr>))))
       = access_token stale_client"
  by (simp add: run_defs ensure_valid_token_def token_expired_def)

text \<open>
  Claim C3, as the code has it. When the expiry stored with the access token is not
  ahead of the current time and a refresh token is at hand (in memory, or else in the
  file), \<^verbatim>\<open>get_access_token\<close> performs exactly one call, a refresh-token request
  to the token endpoint, before it returns: the access token of an answer with
  status 200 and a well-formed body, None for an answer with any other status. When
  the expiry is not ahead and no refresh token is at hand, it performs no call at all
  and returns None (or raises, on a file that cannot be read as a JSON object). When
  the access token is truthy and its expiry is ahead, it performs no call and returns
  the stored token.
\<close>

theorem get_access_token_calls:
  assumes "get_access_token c w = (res, c', w')"
  shows "(token_expired c w \<and> refresh_token_available c w \<longrightarrow>
            wire w' = wire w @ [(refresh_request c', next_reply w)] \<and>
            req_url (refresh_request c') = TOKEN_URL \<and>
            map_of (req_params (refresh_request c')) ''grant_type'' = Some (JStr ''refresh_token'') \<and>
            (case next_reply w of
               None \<Rightarrow> res = Inl ConnectionError
             | Some r \<Rightarrow>
                 if status_code r = 200 then
                   (\<forall>kvs t. json_body r = Some (JObj kvs) \<and>
                       expiry_after (now w) (dict_get kvs ''expires_in'' (JNum 3600)) = Inr t \<longrightarrow>
                      res = Inr (dict_get kvs ''access_token'' JNull))
                 else res = Inr JNull))
       \<and> (token_expired c w \<and> \<not> refresh_token_available c w \<longrightarrow>
            wire w' = wire w \<and> (res = Inr JNull \<or> (\<exists>e. res = Inl e)))
       \<and> (truthy (access_token c) \<and> (\<exists>t. token_expiry c = Some t \<and> now w < t) \<longrightarrow>
            res = Inr (access_token c) \<and> c' = c \<and> w' = w)"
proof (cases "token_expired c w")
  case True
  obtain ok c1 w1 where r: "refresh_access_token c w = (ok, c1, w1)"
    by (cases "refresh_access_token c w")
  with True assms have g: "c' = c1" "w' = w1"
      "res = (case ok of Inl e \<Rightarrow> Inl e | Inr b \<Rightarrow> Inr (if b then access_token c1 else JNull))"
    by (auto simp: get_access_token_def ensure_valid_token_def split: sum.splits)
  show ?thesis
  proof (cases "refresh_token_available c w")
    case av: True
    from refresh_wire [OF r] refresh_outcome [OF r av] av True g show ?thesis
      by (auto simp: refresh_request_def token_expired_def split: option.splits if_splits)
  next
    case False
    from refresh_wire [OF r] False True g show ?thesis
      by (cases ok) (auto simp: token_expired_def)
  qed
next
  case False
  with assms show ?thesis
    by (auto simp: get_access_token_def ensure_valid_token_def token_expired_def)
qed

text \<open>
  Two runs of it: an expired token with the refresh token \<open>rt-1\<close> in memory, and a
  token that is valid for another hour.
\<close>

theorem get_access_token_calls_witness:
  "token_expired stale_client (quiet\<lparr>pending := [Some token_reply]\<rparr>)
   \<and> refresh_token_available stale_client (quiet\<lparr>pending := [Some token_reply]\<rparr>)
   \<and> wire (snd (snd (get_access_token stale_client (quiet\<lparr>pending := [Some token_reply]\<rparr>))))
       = [(refresh_request (fst (snd (get_access_token stale_client
             (quiet\<lparr>pending := [Some token_reply]\<rparr>)))), Some token_reply)]
   \<and> fst (get_access_token stale_client (quiet\<lparr>pending := [Some token_reply]\<rparr>)) = Inr (JStr ''at-2'')
   \<and> truthy (access_token fresh_client)
   \<and> token_expiry fresh_client = Some 63800003600
   \<and> now (quiet\<lparr>pending := [Some token_reply]\<rparr>) < 63800003600
   \<and> get_access_token fresh_client (quiet\<lparr>pending := [Some token_reply]\<rparr>)
       = (Inr (JStr ''at-1''), fresh_client, quiet\<lparr>pending := [Some token_reply]\<rparr>)"
proof -
  define wt where "wt = quiet\<lparr>pending := [Some token_reply]\<rparr>"
  define renewed where "renewed = get_access_token stale_client wt"
  define kept where "kept = get_access_token fresh_client wt"
  have h1: "token_expired stale_client wt \<and> refresh_token_available stale_client wt"
    by (simp add: wt_def token_expired_def refresh_token_available_def example_defs)
  have h2: "truthy (access_token fresh_client) \<and> token_expiry fresh_client = Some 63800003600 \<and>
            now wt < 63800003600"
    by (simp add: wt_def example_defs)
  have a: "wire (snd (snd renewed)) = [(refresh_request (fst (snd renewed)), Some token_reply)] \<and>
           fst renewed = Inr (JStr ''at-2'')"
    using get_access_token_calls [OF split_result, of stale_client wt] h1
    by (simp add: renewed_def wt_def quiet_def token_reply_def next_reply_def
          dict_get_def add_seconds_def DATETIME_MAX_def)
  have "fst kept = Inr (JStr ''at-1'') \<and> fst (snd kept) = fresh_client \<and> snd (snd kept) = wt"
    using get_access_token_calls [OF split_result, of fresh_client wt] h2
    by (simp add: kept_def fresh_client_def acme_def)
  then have b: "kept = (Inr (JStr ''at-1''), fresh_client, wt)"
    by (simp add: triple_eqI)
  from a b h1 h2 show ?thesis
    by (simp add: renewed_def kept_def wt_def)
qed

text \<open>
  The claim as written ("for every token state, exactly one refresh call when the
  expiry is in the past") fails in a state the client reaches by itself: the
  authorization-code exchange was answered without a refresh token, and two hours
  later the access token has expired. \<^verbatim>\<open>get_access_token\<close> then sends nothing,
  although an answer is waiting, and returns None.
\<close>

theorem get_access_token_without_refresh_token:
  "truthy (access_token (fst two_hours_after_grant))
   \<and> token_expired (fst two_hours_after_grant) (snd two_hours_after_grant)
   \<and> pending (snd two_hours_after_grant) = [Some token_reply]
   \<and> wire (snd (snd (get_access_token (fst two_hours_after_grant) (snd two_hours_after_grant))))
       = wire (snd two_hours_after_grant)
   \<and> fst (get_access_token (fst two_hours_after_grant) (snd two_hours_after_grant)) = Inr JNull"
  by (simp add: two_hours_after_grant_def run_defs get_grant_token_def grant_request_def
        store_refresh_token_def get_access_token_def ensure_valid_token_def token_expired_def)

section \<open>What the token manager leaves alone\<close>

lemma token_url_not_resource: "req_url rq = TOKEN_URL \<Longrightarrow> \<not> is_resource rq"
  by (simp add: is_resource_def BASE_URL_def TOKEN_URL_def)

lemma resource_request_is_resource: "is_resource (resource_request c tok m ep ps pl)"
  by (simp add: is_resource_def resource_request_def)

lemma refresh_world:
  assumes "refresh_access_token c w = (res, c', w')"
  shows "fs w' = fs w \<and> now w' = now w \<and> stdin w' = stdin w \<and> stdout w' = stdout w"
  using assms
  by (auto simp: refresh_access_token_def log_def Let_def dest!: http_send_world
       split: if_splits sum.splits prod.splits option.splits)

lemma refresh_config:
  assumes "refresh_access_token c w = (res, c', w')"
  shows "organization_id c' = organization_id c \<and> client_id c' = client_id c \<and>
         client_secret c' = client_secret c \<and> redirect_uri c' = redirect_uri c \<and>
         temp_file c' = temp_file c"
  using assms
  by (auto simp: refresh_access_token_def log_def Let_def
       dest!: http_send_world load_refresh_token_cases
       split: if_splits sum.splits prod.splits option.splits)

lemma refresh_effects:
  assumes "refresh_access_token c w = (res, c', w')"
  shows "fs w' = fs w \<and> now w' = now w \<and> stdin w' = stdin w \<and> stdout w' = stdout w \<and>
         organization_id c' = organization_id c \<and> client_id c' = client_id c \<and>
         client_secret c' = client_secret c \<and> redirect_uri c' = redirect_uri c \<and>
         temp_file c' = temp_file c \<and>
         (wire w' = wire w \<or> (\<exists>rq rep. req_url rq = TOKEN_URL \<and> wire w' = wire w @ [(rq, rep)]))"
proof -
  have "req_url (refresh_request c') = TOKEN_URL" by (simp add: refresh_request_def)
  with refresh_wire [OF assms]
  have "wire w' = wire w \<or> (\<exists>rq rep. req_url rq = TOKEN_URL \<and> wire w' = wire w @ [(rq, rep)])"
    by (cases "refresh_token_available c w") blast+
  with refresh_world [OF assms] refresh_config [OF assms] show ?thesis by blast
qed

lemma ensure_valid_token_effects:
  assumes "ensure_valid_token c w = (res, c', w')"
  shows "fs w' = fs w \<and> now w' = now w \<and> stdin w' = stdin w \<and> stdout w' = stdout w \<and>
         organization_id c' = organization_id c \<and> client_id c' = client_id c \<and>
         client_secret c' = client_secret c \<and> redirect_uri c' = redirect_uri c \<and>
         temp_file c' = temp_file c \<and>
         (wire w' = wire w \<or> (\<exists>rq rep. req_url rq = TOKEN_URL \<and> wire w' = wire w @ [(rq, rep)]))"
proof (cases "\<not> truthy (access_token c) \<or> token_expired c w")
  case True
  with assms have "refresh_access_token c w = (res, c', w')"
    by (auto simp: ensure_valid_token_def)
  from refresh_effects [OF this] show ?thesis .
next
  case False
  with assms show ?thesis by (auto simp: ensure_valid_token_def)
qed

lemma get_access_token_effects:
  assumes "get_access_token c w = (res, c', w')"
  shows "fs w' = fs w \<and> now w' = now w \<and> stdin w' = stdin w \<and> stdout w' = stdout w \<and>
         organization_id c' = organization_id c \<and> client_id c' = client_id c \<and>
         client_secret c' = client_secret c \<and> redirect_uri c' = redirect_uri c \<and>
         temp_file c' = temp_file c \<and>
         (wire w' = wire w \<or> (\<exists>rq rep. req_url rq = TOKEN_URL \<and> wire w' = wire w @ [(rq, rep)]))"
proof -
  obtain ok where "ensure_valid_token c w = (ok, c', w')"
    using assms by (auto simp: get_access_token_def split: prod.splits sum.splits)
  from ensure_valid_token_effects [OF this] show ?thesis .
qed

lemma get_access_token_resource_calls:
  assumes "get_access_token c w = (res, c', w')"
  shows "resource_calls w' = resource_calls w"
  using get_access_token_effects [OF assms]
  by (auto simp: resource_calls_def token_url_not_resource)

section \<open>The request dispatcher\<close>

lemma make_request_sent:
  assumes m: "make_request c method endpoint params payload w = (res, c', w')"
    and g: "get_access_token c w = (Inr tok, c1, w1)" and t: "truthy tok"
  shows "c' = c1
       \<and> wire w' = wire w1 @ [(resource_request c1 tok method endpoint params payload, next_reply w1)]
       \<and> pending w' = tl (pending w1)
       \<and> fs w' = fs w1
       \<and> (case next_reply w1 of
            None \<Rightarrow> res = Inl ConnectionError
          | Some r \<Rightarrow>
              if 400 \<le> status_code r \<and> status_code r < 600 then
                res = Inl (HTTPError (status_code r)) \<and>
                logged w' = logged w1 @
                  [(INFO, [Lit ''Making '', Lit method, Lit '' request to '',
                           Lit (BASE_URL @ ''/'' @ endpoint)]),
                   (ERROR, [Lit ''HTTP error occurred: '', PyExn (HTTPError (status_code r))]),
                   (ERROR, [Lit ''Response content: '', Lit (resp_text r)])]
              else
                res = Inr r \<and>
                logged w' = logged w1 @
                  [(INFO, [Lit ''Making '', Lit method, Lit '' request to '',
                           Lit (BASE_URL @ ''/'' @ endpoint)]),
                   (INFO, [Lit ''Request to '', Lit (BASE_URL @ ''/'' @ endpoint),
                           Lit '' successful''])])"
proof -
  let ?rq = "resource_request c1 tok method endpoint params payload"
  let ?w2 = "log INFO [Lit ''Making '', Lit method, Lit '' request to '', Lit (req_url ?rq)] w1"
  obtain sent w3 where s: "http_send ?rq ?w2 = (sent, w3)"
    by (cases "http_send ?rq ?w2")
  have u: "req_url ?rq = BASE_URL @ ''/'' @ endpoint" by (simp add: resource_request_def)
  from http_send_world [OF s] have h: "w3 = ?w2\<lparr>pending := tl (pending ?w2), wire := wire ?w2 @ [(?rq, next_reply ?w2)]\<rparr>"
      "sent = (case next_reply ?w2 of None \<Rightarrow> Inl ConnectionError | Some r \<Rightarrow> Inr r)"
    by simp_all
  have n: "next_reply ?w2 = next_reply w1" by (simp add: next_reply_def log_def)
  show ?thesis
  proof (cases "next_reply w1")
    case None
    with m g t s h n show ?thesis
      by (auto simp: make_request_def Let_def log_def)
  next
    case (Some r)
    with m g t s h n u show ?thesis
      by (auto simp: make_request_def Let_def log_def raise_for_status_def)
  qed
qed

lemmas dispatch_defs =
  make_request_def get_access_token_def ensure_valid_token_def token_expired_def
  resource_request_def raise_for_status_def

lemma fresh_token_at_hand:
  "get_access_token fresh_client (quiet\<lparr>pending := rs\<rparr>)
     = (Inr (JStr ''at-1''), fresh_client, quiet\<lparr>pending := rs\<rparr>)"
  by (simp add: get_access_token_def ensure_valid_token_def token_expired_def example_defs)

text \<open>
  Claim C6. When \<^verbatim>\<open>get_access_token\<close> returns an absent value (None; the same
  holds for any falsy value, such as the empty string), \<^verbatim>\<open>_make_request\<close> logs
  the error and raises the ValueError; it sends nothing after the token manager has
  returned, so no request goes to the resource API and no pending reply is consumed.
\<close>

theorem make_request_without_token:
  assumes m: "make_request c method endpoint params payload w = (res, c', w')"
    and g: "get_access_token c w = (Inr tok, c1, w1)" and nt: "\<not> truthy tok"
  shows "res = Inl (ValueError ''Failed to obtain a valid access token.'')
       \<and> c' = c1
       \<and> w' = w1\<lparr>logged := logged w1 @ [(ERROR, [Lit ''Failed to obtain a valid access token.''])]\<rparr>
       \<and> resource_calls w' = resource_calls w
       \<and> pending w' = pending w1"
proof -
  from m g nt have r: "res = Inl (ValueError ''Failed to obtain a valid access token.'')" "c' = c1"
      "w' = w1\<lparr>logged := logged w1 @ [(ERROR, [Lit ''Failed to obtain a valid access token.''])]\<rparr>"
    by (auto simp: make_request_def log_def)
  from r(3) have "resource_calls w' = resource_calls w1" "pending w' = pending w1"
    by (simp_all add: resource_calls_def)
  with get_access_token_resource_calls [OF g] r show ?thesis by simp
qed

text \<open>
  A run of it: the token has expired and the refresh is answered with 401, so the
  token manager returns None. The reply that was waiting for the resource call is
  still waiting afterwards.
\<close>

theorem make_request_without_token_witness:
  "fst (get_access_token stale_client (quiet\<lparr>pending := [Some denied_reply, Some invoices_reply]\<rparr>))
     = Inr JNull
   \<and> \<not> truthy JNull
   \<and> fst (make_request stale_client ''GET'' ''invoices'' None None
            (quiet\<lparr>pending := [Some denied_reply, Some invoices_reply]\<rparr>))
       = Inl (ValueError ''Failed to obtain a valid access token.'')
   \<and> resource_calls (snd (snd (make_request stale_client ''GET'' ''invoices'' None None
            (quiet\<lparr>pending := [Some denied_reply, Some invoices_reply]\<rparr>)))) = []
   \<and> pending (snd (snd (make_request stale_client ''GET'' ''invoices'' None None
            (quiet\<lparr>pending := [Some denied_reply, Some invoices_reply]\<rparr>)))) = [Some invoices_reply]
   \<and> last (logged (snd (snd (make_request stale_client ''GET'' ''invoices'' None None
            (quiet\<lparr>pending := [Some denied_reply, Some invoices_reply]\<rparr>)))))
       = (ERROR, [Lit ''Failed to obtain a valid access token.''])"
proof -
  define w where "w = quiet\<lparr>pending := [Some denied_reply, Some invoices_reply]\<rparr>"
  define got where "got = get_access_token stale_client w"
  define out where "out = make_request stale_client ''GET'' ''invoices'' None None w"
  have t: "fst got = Inr JNull"
    by (simp add: got_def w_def get_access_token_def ensure_valid_token_def token_expired_def run_defs)
  have p: "pending (snd (snd got)) = [Some invoices_reply]"
    by (simp add: got_def w_def get_access_token_def ensure_valid_token_def token_expired_def run_defs)
  have g: "get_access_token stale_client w = (Inr JNull, fst (snd got), snd (snd got))"
    using t by (intro triple_eqI) (simp_all add: got_def)
  have e: "resource_calls w = []"
    by (simp add: w_def resource_calls_def quiet_def)
  have nt: "\<not> truthy JNull" by simp
  note T = make_request_without_token [OF split_result g nt, of "''GET''" "''invoices''" None None,
      folded out_def]
  from T have a: "fst out = Inl (ValueError ''Failed to obtain a valid access token.'')" by simp
  from T have "resource_calls (snd (snd out)) = resource_calls w" by blast
  with e have b: "resource_calls (snd (snd out)) = []" by simp
  from T have "pending (snd (snd out)) = pending (snd (snd got))" by blast
  with p have c: "pending (snd (snd out)) = [Some invoices_reply]" by simp
  from T have "logged (snd (snd out)) =
      logged (snd (snd got)) @ [(ERROR, [Lit ''Failed to obtain a valid access token.''])]"
    by simp
  then have d: "last (logged (snd (snd out))) = (ERROR, [Lit ''Failed to obtain a valid access token.''])"
    by simp
  from a b c d
  have "fst out = Inl (ValueError ''Failed to obtain a valid access token.'') \<and>
        resource_calls (snd (snd out)) = [] \<and> pending (snd (snd out)) = [Some invoices_reply] \<and>
        last (logged (snd (snd out))) = (ERROR, [Lit ''Failed to obtain a valid access token.''])"
    by simp
  with t show ?thesis by (simp add: out_def got_def w_def)
qed

text \<open>
  Claim C5, as the code has it. A call of \<^verbatim>\<open>_make_request\<close> that obtains an
  access token issues exactly one request to the resource API, preceded by at most one
  request to the token endpoint (the refresh); there is no retry. When the response
  has a status from 400 to 599, the call logs the HTTP error, which carries the
  status, and then the body, and raises that HTTPError to the caller. A response with
  any other status is returned to the caller, the non-2xx statuses below 400 and
  from 600 included, because \<^verbatim>\<open>raise_for_status\<close> raises for client and server
  errors only.
\<close>

theorem make_request_single_shot:
  assumes m: "make_request c method endpoint params payload w = (res, c', w')"
    and g: "get_access_token c w = (Inr tok, c1, w1)" and t: "truthy tok"
  shows "resource_calls w' =
           resource_calls w @ [(resource_request c1 tok method endpoint params payload, next_reply w1)]
       \<and> (\<exists>pre. wire w' = wire w @ pre @
                    [(resource_request c1 tok method endpoint params payload, next_reply w1)] \<and>
                  length pre \<le> 1 \<and> list_all (\<lambda>x. req_url (fst x) = TOKEN_URL) pre)
       \<and> pending w' = tl (pending w1)
       \<and> (case next_reply w1 of
            None \<Rightarrow> res = Inl ConnectionError
          | Some r \<Rightarrow>
              if 400 \<le> status_code r \<and> status_code r < 600 then
                res = Inl (HTTPError (status_code r)) \<and>
                logged w' = logged w1 @
                  [(INFO, [Lit ''Making '', Lit method, Lit '' request to '',
                           Lit (BASE_URL @ ''/'' @ endpoint)]),
                   (ERROR, [Lit ''HTTP error occurred: '', PyExn (HTTPError (status_code r))]),
                   (ERROR, [Lit ''Response content: '', Lit (resp_text r)])]
              else res = Inr r)"
proof -
  let ?x = "(resource_request c1 tok method endpoint params payload, next_reply w1)"
  note s = make_request_sent [OF m g t]
  from s have w: "wire w' = wire w1 @ [?x]" by simp
  from get_access_token_effects [OF g]
  have "\<exists>pre. wire w1 = wire w @ pre \<and> length pre \<le> 1 \<and> list_all (\<lambda>x. req_url (fst x) = TOKEN_URL) pre"
    by (elim conjE disjE exE) (rule exI [of _ "[]"], simp, rule_tac x = "[(rq, rep)]" in exI, simp)
  with w have a: "\<exists>pre. wire w' = wire w @ pre @ [?x] \<and> length pre \<le> 1 \<and>
      list_all (\<lambda>x. req_url (fst x) = TOKEN_URL) pre"
    by auto
  from w get_access_token_resource_calls [OF g]
  have b: "resource_calls w' = resource_calls w @ [?x]"
    by (simp add: resource_calls_def resource_request_is_resource)
  from s a b show ?thesis
    by (auto split: option.splits if_splits)
qed

text \<open>
  A run of it: the token is valid and the resource API answers 500; the next reply
  is left waiting.
\<close>

theorem make_request_single_shot_witness:
  "get_access_token fresh_client (quiet\<lparr>pending := [Some server_error_reply, Some invoices_reply]\<rparr>)
     = (Inr (JStr ''at-1''), fresh_client, quiet\<lparr>pending := [Some server_error_reply, Some invoices_reply]\<rparr>)
   \<and> truthy (JStr ''at-1'')
   \<and> 400 \<le> status_code server_error_reply \<and> status_code server_error_reply < 600
   \<and> fst (make_request fresh_client ''GET'' ''invoices'' None None
            (quiet\<lparr>pending := [Some server_error_reply, Some invoices_reply]\<rparr>)) = Inl (HTTPError 500)
   \<and> resource_calls (snd (snd (make_request fresh_client ''GET'' ''invoices'' None None
            (quiet\<lparr>pending := [Some server_error_reply, Some invoices_reply]\<rparr>))))
       = [(resource_request fresh_client (JStr ''at-1'') ''GET'' ''invoices'' None None,
           Some server_error_reply)]
   \<and> pending (snd (snd (make_request fresh_client ''GET'' ''invoices'' None None
            (quiet\<lparr>pending := [Some server_error_reply, Some invoices_reply]\<rparr>)))) = [Some invoices_reply]
   \<and> logged (snd (snd (make_request fresh_client ''GET'' ''invoices'' None None
            (quiet\<lparr>pending := [Some server_error_reply, Some invoices_reply]\<rparr>))))
       = [(INFO, [Lit ''Making '', Lit ''GET'', Lit '' request to '', Lit (BASE_URL @ ''/invoices'')]),
          (ERROR, [Lit ''HTTP error occurred: '', PyExn (HTTPError 500)]),
          (ERROR, [Lit ''Response content: '', Lit ''{code: 1000, message: Internal Error}''])]"
proof -
  define w where "w = quiet\<lparr>pending := [Some server_error_reply, Some invoices_reply]\<rparr>"
  define out where "out = make_request fresh_client ''GET'' ''invoices'' None None w"
  have g: "get_access_token fresh_client w = (Inr (JStr ''at-1''), fresh_client, w)"
    by (simp add: w_def fresh_token_at_hand)
  have n: "next_reply w = Some server_error_reply" "pending w = [Some server_error_reply, Some invoices_reply]"
      "logged w = []" "resource_calls w = []"
    by (simp_all add: w_def next_reply_def quiet_def resource_calls_def)
  from make_request_single_shot [OF split_result g, of "''GET''" "''invoices''" None None] n
  have "fst out = Inl (HTTPError 500) \<and>
        resource_calls (snd (snd out)) =
          [(resource_request fresh_client (JStr ''at-1'') ''GET'' ''invoices'' None None,
            Some server_error_reply)] \<and>
        pending (snd (snd out)) = [Some invoices_reply] \<and>
        logged (snd (snd out)) =
          [(INFO, [Lit ''Making '', Lit ''GET'', Lit '' request to '', Lit (BASE_URL @ ''/invoices'')]),
           (ERROR, [Lit ''HTTP error occurred: '', PyExn (HTTPError 500)]),
           (ERROR, [Lit ''Response content: '', Lit ''{code: 1000, message: Internal Error}''])]"
    by (simp add: out_def server_error_reply_def)
  with g show ?thesis by (simp add: out_def w_def server_error_reply_def)
qed

text \<open>
  The claim as written fails twice. A response with the non-2xx status 304 is returned
  without any error. And a call that raises for a 500 has issued two HTTP requests,
  not one, when the access token had expired: the refresh and then the resource
  request.
\<close>

theorem make_request_returns_not_modified:
  "\<not> (200 \<le> status_code not_modified_reply \<and> status_code not_modified_reply < 300)
   \<and> fst (make_request fresh_client ''GET'' ''invoices'' None None
            (quiet\<lparr>pending := [Some not_modified_reply]\<rparr>)) = Inr not_modified_reply
   \<and> \<not> (200 \<le> status_code server_error_reply \<and> status_code server_error_reply < 300)
   \<and> fst (make_request stale_client ''GET'' ''invoices'' None None
            (quiet\<lparr>pending := [Some token_reply, Some server_error_reply]\<rparr>)) = Inl (HTTPError 500)
   \<and> map (req_url \<circ> fst) (wire (snd (snd (make_request stale_client ''GET'' ''invoices'' None None
            (quiet\<lparr>pending := [Some token_reply, Some server_error_reply]\<rparr>)))))
       = [TOKEN_URL, BASE_URL @ ''/invoices'']"
  by (simp add: dispatch_defs run_defs)

text \<open>
  Claim C9. Every request that \<^verbatim>\<open>_make_request\<close> sends to the resource API
  carries the caller's query parameters with \<open>organization_id\<close> set to the client's
  organization identifier, whatever value the caller gave for that key; and whenever
  the token manager supplies a token, such a request is sent, to the given method and
  endpoint.
\<close>

theorem make_request_organization_id:
  assumes m: "make_request c method endpoint params payload w = (res, c', w')"
  shows "(\<forall>rq rep. (rq, rep) \<in> set (drop (length (wire w)) (wire w')) \<and> is_resource rq \<longrightarrow>
            map_of (req_params rq) =
              (map_of (case params of None \<Rightarrow> [] | Some p \<Rightarrow> p))
                (''organization_id'' \<mapsto> JStr (organization_id c)))
       \<and> (\<forall>tok c1 w1. get_access_token c w = (Inr tok, c1, w1) \<and> truthy tok \<longrightarrow>
            (\<exists>rq. wire w' = wire w1 @ [(rq, next_reply w1)] \<and> is_resource rq \<and>
                  req_method rq = method \<and> req_url rq = BASE_URL @ ''/'' @ endpoint \<and>
                  req_params rq = AList.update ''organization_id'' (JStr (organization_id c))
                                    (case params of None \<Rightarrow> [] | Some p \<Rightarrow> p)))"
proof -
  obtain got c1 w1 where g: "get_access_token c w = (got, c1, w1)"
    by (cases "get_access_token c w")
  note e = get_access_token_effects [OF g]
  then have org: "organization_id c1 = organization_id c" by simp
  let ?ps = "case params of None \<Rightarrow> [] | Some p \<Rightarrow> p"
  have second: "\<forall>tok c1 w1. get_access_token c w = (Inr tok, c1, w1) \<and> truthy tok \<longrightarrow>
            (\<exists>rq. wire w' = wire w1 @ [(rq, next_reply w1)] \<and> is_resource rq \<and>
                  req_method rq = method \<and> req_url rq = BASE_URL @ ''/'' @ endpoint \<and>
                  req_params rq = AList.update ''organization_id'' (JStr (organization_id c)) ?ps)"
  proof (intro allI impI)
    fix tok c2 w2
    assume a: "get_access_token c w = (Inr tok, c2, w2) \<and> truthy tok"
    with g have eq: "got = Inr tok" "c2 = c1" "w2 = w1" by simp_all
    from a make_request_sent [OF m] have
      "wire w' = wire w2 @ [(resource_request c2 tok method endpoint params payload, next_reply w2)]"
      by blast
    with eq org show "\<exists>rq. wire w' = wire w2 @ [(rq, next_reply w2)] \<and> is_resource rq \<and>
                  req_method rq = method \<and> req_url rq = BASE_URL @ ''/'' @ endpoint \<and>
                  req_params rq = AList.update ''organization_id'' (JStr (organization_id c)) ?ps"
      by (intro exI [of _ "resource_request c2 tok method endpoint params payload"])
         (simp add: resource_request_is_resource, simp add: resource_request_def)
  qed
  have tokens_only: "wire w' = wire w1 \<Longrightarrow>
      \<forall>rq rep. (rq, rep) \<in> set (drop (length (wire w)) (wire w')) \<longrightarrow> \<not> is_resource rq"
    using e by (auto simp: token_url_not_resource)
  have first: "\<forall>rq rep. (rq, rep) \<in> set (drop (length (wire w)) (wire w')) \<and> is_resource rq \<longrightarrow>
            map_of (req_params rq) = (map_of ?ps)(''organization_id'' \<mapsto> JStr (organization_id c))"
  proof (cases "\<exists>tok. got = Inr tok \<and> truthy tok")
    case True
    then obtain tok where tk: "got = Inr tok" "truthy tok" by blast
    with g have g': "get_access_token c w = (Inr tok, c1, w1)" by simp
    from make_request_sent [OF m g' tk(2)]
    have w: "wire w' = wire w1 @ [(resource_request c1 tok method endpoint params payload, next_reply w1)]"
      by simp
    have p: "map_of (req_params (resource_request c1 tok method endpoint params payload)) =
               (map_of ?ps)(''organization_id'' \<mapsto> JStr (organization_id c))"
      by (simp add: resource_request_def org update_conv')
    from e w p show ?thesis
      by (auto simp: token_url_not_resource)
  next
    case False
    with m g have "wire w' = wire w1"
      by (auto simp: make_request_def log_def split: sum.splits if_splits)
    from tokens_only [OF this] show ?thesis by blast
  qed
  from first second show ?thesis by blast
qed

text \<open>
  A run of it: the caller passes \<open>organization_id = 70002\<close>; the request carries
  the client's \<open>60001\<close>, in the place of the caller's entry, and the caller's other
  parameter.
\<close>

theorem make_request_organization_id_witness:
  "get_access_token fresh_client (quiet\<lparr>pending := [Some invoices_reply]\<rparr>)
     = (Inr (JStr ''at-1''), fresh_client, quiet\<lparr>pending := [Some invoices_reply]\<rparr>)
   \<and> truthy (JStr ''at-1'')
   \<and> map (req_params \<circ> fst)
        (wire (snd (snd (make_request fresh_client ''GET'' ''invoices/9001''
            (Some [(''organization_id'', JStr ''70002''), (''accept'', JStr ''pdf'')]) None
            (quiet\<lparr>pending := [Some invoices_reply]\<rparr>)))))
       = [[(''organization_id'', JStr ''60001''), (''accept'', JStr ''pdf'')]]
   \<and> organization_id fresh_client = ''60001''"
proof -
  define w where "w = quiet\<lparr>pending := [Some invoices_reply]\<rparr>"
  define out where "out = make_request fresh_client ''GET'' ''invoices/9001''
            (Some [(''organization_id'', JStr ''70002''), (''accept'', JStr ''pdf'')]) None w"
  have g: "get_access_token fresh_client w = (Inr (JStr ''at-1''), fresh_client, w)"
    by (simp add: w_def fresh_token_at_hand)
  have o: "organization_id fresh_client = ''60001''" "wire w = []"
    by (simp_all add: w_def example_defs)
  from make_request_organization_id [of fresh_client "''GET''" "''invoices/9001''"
      "Some [(''organization_id'', JStr ''70002''), (''accept'', JStr ''pdf'')]" None w
      "fst out" "fst (snd out)" "snd (snd out)"] g
  have "\<exists>rq. wire (snd (snd out)) = wire w @ [(rq, next_reply w)] \<and>
          req_params rq = AList.update ''organization_id'' (JStr (organization_id fresh_client))
             [(''organization_id'', JStr ''70002''), (''accept'', JStr ''pdf'')]"
    unfolding out_def by fastforce
  with o have "map (req_params \<circ> fst) (wire (snd (snd out)))
       = [[(''organization_id'', JStr ''60001''), (''accept'', JStr ''pdf'')]]"
    by auto
  with g o show ?thesis by (simp add: out_def w_def)
qed

section \<open>Construction\<close>







lemma grant_request_config:
  assumes "client_id c' = client_id c" and "client_secret c' = client_secret c"
    and "redirect_uri c' = redirect_uri c"
  shows "grant_request c' code = grant_request c code"
  using assms by (simp add: grant_request_def)












section \<open>Listing invoices, items and contacts\<close>

lemma json_get_cases:
  "json_get r k d =
     (case json_body r of
        None \<Rightarrow> Inl JSONDecodeError
      | Some (JObj kvs) \<Rightarrow> Inr (case map_of kvs k of None \<Rightarrow> d | Some v \<Rightarrow> v)
      | Some _ \<Rightarrow> Inl AttributeError)"
  by (simp add: json_get_def dict_get_def split: option.splits json.splits)

lemma make_request_returns:
  assumes g: "get_access_token c w = (Inr tok, c1, w1)" and t: "truthy tok"
    and n: "next_reply w1 = Some r" and s: "\<not> (400 \<le> status_code r \<and> status_code r < 600)"
  shows "\<exists>w'. make_request c method endpoint params payload w = (Inr r, c1, w') \<and>
              wire w' = wire w1 @ [(resource_request c1 tok method endpoint params payload, Some r)]"
proof -
  obtain res c' w' where m: "make_request c method endpoint params payload w = (res, c', w')"
    by (cases "make_request c method endpoint params payload w")
  from make_request_sent [OF m g t] n s m show ?thesis by auto
qed

text \<open>
  Claim C7, as the code has it. Each of \<^verbatim>\<open>list_invoices\<close>, \<^verbatim>\<open>list_items\<close> and
  \<^verbatim>\<open>list_contacts\<close> sends one GET request to its collection endpoint. When the
  response (one that \<^verbatim>\<open>raise_for_status\<close> lets through) has a body that is a JSON
  object, the method returns the named field of that object, and the empty list, not
  an error and not None, when the object has no such field. When the body is not
  JSON the method raises JSONDecodeError, and when it is JSON but not an object,
  AttributeError.
\<close>

theorem list_operations_field:
  assumes g: "get_access_token c w = (Inr tok, c1, w1)" and t: "truthy tok"
    and n: "next_reply w1 = Some r" and s: "\<not> (400 \<le> status_code r \<and> status_code r < 600)"
  shows "fst (list_invoices c w) =
           (case json_body r of
              None \<Rightarrow> Inl JSONDecodeError
            | Some (JObj kvs) \<Rightarrow> Inr (case map_of kvs ''invoices'' of None \<Rightarrow> JArr [] | Some v \<Rightarrow> v)
            | Some _ \<Rightarrow> Inl AttributeError)
       \<and> last (wire (snd (snd (list_invoices c w))))
           = (resource_request c1 tok ''GET'' ''invoices'' None None, Some r)
       \<and> fst (list_items c w) =
           (case json_body r of
              None \<Rightarrow> Inl JSONDecodeError
            | Some (JObj kvs) \<Rightarrow> Inr (case map_of kvs ''items'' of None \<Rightarrow> JArr [] | Some v \<Rightarrow> v)
            | Some _ \<Rightarrow> Inl AttributeError)
       \<and> last (wire (snd (snd (list_items c w))))
           = (resource_request c1 tok ''GET'' ''items'' None None, Some r)
       \<and> fst (list_contacts c w) =
           (case json_body r of
              None \<Rightarrow> Inl JSONDecodeError
            | Some (JObj kvs) \<Rightarrow> Inr (case map_of kvs ''contacts'' of None \<Rightarrow> JArr [] | Some v \<Rightarrow> v)
            | Some _ \<Rightarrow> Inl AttributeError)
       \<and> last (wire (snd (snd (list_contacts c w))))
           = (resource_request c1 tok ''GET'' ''contacts'' None None, Some r)"
proof -
  from make_request_returns [OF g t n s, of "''GET''" "''invoices''" None None] obtain wa where
    a: "make_request c ''GET'' ''invoices'' None None w = (Inr r, c1, wa)"
       "wire wa = wire w1 @ [(resource_request c1 tok ''GET'' ''invoices'' None None, Some r)]"
    by blast
  from make_request_returns [OF g t n s, of "''GET''" "''items''" None None] obtain wb where
    b: "make_request c ''GET'' ''items'' None None w = (Inr r, c1, wb)"
       "wire wb = wire w1 @ [(resource_request c1 tok ''GET'' ''items'' None None, Some r)]"
    by blast
  from make_request_returns [OF g t n s, of "''GET''" "''contacts''" None None] obtain wc where
    c: "make_request c ''GET'' ''contacts'' None None w = (Inr r, c1, wc)"
       "wire wc = wire w1 @ [(resource_request c1 tok ''GET'' ''contacts'' None None, Some r)]"
    by blast
  from a b c show ?thesis
    by (simp add: list_invoices_def list_items_def list_contacts_def json_get_cases)
qed

text \<open>
  Runs of it: a body with the field \<open>invoices\<close>, read by \<^verbatim>\<open>list_invoices\<close> and by
  \<^verbatim>\<open>list_items\<close>, and a body with none of the three fields.
\<close>

theorem list_operations_field_witness:
  "get_access_token fresh_client (quiet\<lparr>pending := [Some invoices_reply]\<rparr>)
     = (Inr (JStr ''at-1''), fresh_client, quiet\<lparr>pending := [Some invoices_reply]\<rparr>)
   \<and> truthy (JStr ''at-1'')
   \<and> \<not> (400 \<le> status_code invoices_reply \<and> status_code invoices_reply < 600)
   \<and> fst (list_invoices fresh_client (quiet\<lparr>pending := [Some invoices_reply]\<rparr>))
       = Inr (JArr [JObj [(''invoice_id'', JStr ''9001'')]])
   \<and> fst (list_items fresh_client (quiet\<lparr>pending := [Some invoices_reply]\<rparr>)) = Inr (JArr [])
   \<and> fst (list_invoices fresh_client (quiet\<lparr>pending := [Some no_field_reply]\<rparr>)) = Inr (JArr [])
   \<and> fst (list_items fresh_client (quiet\<lparr>pending := [Some no_field_reply]\<rparr>)) = Inr (JArr [])
   \<and> fst (list_contacts fresh_client (quiet\<lparr>pending := [Some no_field_reply]\<rparr>)) = Inr (JArr [])
   \<and> map (req_url \<circ> fst)
        (wire (snd (snd (list_contacts fresh_client (quiet\<lparr>pending := [Some no_field_reply]\<rparr>)))))
       = [BASE_URL @ ''/contacts'']"
proof -
  define wi where "wi = quiet\<lparr>pending := [Some invoices_reply]\<rparr>"
  define wn where "wn = quiet\<lparr>pending := [Some no_field_reply]\<rparr>"
  have gi: "get_access_token fresh_client wi = (Inr (JStr ''at-1''), fresh_client, wi)"
    by (simp add: wi_def fresh_token_at_hand)
  have gn: "get_access_token fresh_client wn = (Inr (JStr ''at-1''), fresh_client, wn)"
    by (simp add: wn_def fresh_token_at_hand)
  have t: "truthy (JStr ''at-1'')" by simp
  have ni: "next_reply wi = Some invoices_reply"
      "\<not> (400 \<le> status_code invoices_reply \<and> status_code invoices_reply < 600)"
    by (simp_all add: wi_def next_reply_def invoices_reply_def)
  have nn: "next_reply wn = Some no_field_reply"
      "\<not> (400 \<le> status_code no_field_reply \<and> status_code no_field_reply < 600)"
    by (simp_all add: wn_def next_reply_def no_field_reply_def)
  from list_operations_field [OF gi t ni]
  have a: "fst (list_invoices fresh_client wi) = Inr (JArr [JObj [(''invoice_id'', JStr ''9001'')]]) \<and>
           fst (list_items fresh_client wi) = Inr (JArr [])"
    by (simp add: invoices_reply_def)
  from list_operations_field [OF gn t nn]
  have b: "fst (list_invoices fresh_client wn) = Inr (JArr []) \<and>
           fst (list_items fresh_client wn) = Inr (JArr []) \<and>
           fst (list_contacts fresh_client wn) = Inr (JArr []) \<and>
           last (wire (snd (snd (list_contacts fresh_client wn))))
             = (resource_request fresh_client (JStr ''at-1'') ''GET'' ''contacts'' None None,
                Some no_field_reply)"
    by (simp add: no_field_reply_def)
  have one: "length (wire (snd (snd (list_contacts fresh_client wn)))) = 1"
    by (simp add: wn_def list_contacts_def dispatch_defs run_defs)
  with b have c: "map (req_url \<circ> fst) (wire (snd (snd (list_contacts fresh_client wn))))
       = [BASE_URL @ ''/contacts'']"
    by (cases "wire (snd (snd (list_contacts fresh_client wn)))")
       (auto simp: resource_request_def)
  from a b c gi ni show ?thesis
    by (simp add: wi_def wn_def)
qed

text \<open>
  The claim as written ("for every response body") fails for a body that is a JSON
  array: the field is missing from it, and the three methods raise AttributeError
  instead of returning the empty list.
\<close>

theorem list_invoices_raises_on_array_body:
  "status_code array_reply = 200
   \<and> json_body array_reply = Some (JArr [])
   \<and> fst (list_invoices fresh_client (quiet\<lparr>pending := [Some array_reply]\<rparr>)) = Inl AttributeError
   \<and> fst (list_items fresh_client (quiet\<lparr>pending := [Some array_reply]\<rparr>)) = Inl AttributeError
   \<and> fst (list_contacts fresh_client (quiet\<lparr>pending := [Some array_reply]\<rparr>)) = Inl AttributeError"
  by (simp add: list_invoices_def list_items_def list_contacts_def json_get_def dispatch_defs run_defs)

section \<open>Creating an invoice\<close>




lemma line_item_truthy:
  "line_item item_id quantity item = Inr entry \<Longrightarrow> truthy item \<Longrightarrow>
   (if truthy item
    then (case line_item item_id quantity item of Inl e \<Rightarrow> [] | Inr entry \<Rightarrow> [entry])
    else []) = [entry]"
  by simp






end
